theory Spec2Isabelle
  imports Main "HOL-Library.Word"
begin

type_synonym byte = "8 word"
type_synonym Uint256 = "256 word"

section \<open>Network server: inventory handling and transaction relay\<close>

text \<open>payload.Version (pkg/network/payload/version.go).\<close>

record Version =
  Version :: "32 word"
  Services :: "64 word"
  Timestamp :: "32 word"
  Port :: "16 word"
  Nonce :: "32 word"
  UserAgent :: "byte list"
  StartHeight :: "32 word"
  Relay :: bool

text \<open>
  Modelled from the spec: the inventory payload and the message frame (inventory.go and
  message.go are not among the sources). Section 6 gives \<open>inv\<close>/\<open>getdata\<close> as a type
  (block, tx or consensus) and a list of hashes; a message carries the network magic, a
  command and its payload. Only the commands used below are listed.
\<close>

datatype InventoryType = TXType | BlockType | ConsensusType

record Inventory =
  inv_Type :: InventoryType
  Hashes :: "Uint256 list"

definition NewInventory :: "InventoryType \<Rightarrow> Uint256 list \<Rightarrow> Inventory" where
  "NewInventory typ hashes = \<lparr>inv_Type = typ, Hashes = hashes\<rparr>"

datatype CommandType = CMDInv | CMDGetData | CMDTX | CMDBlock

record Message =
  Magic :: "32 word"
  Command :: CommandType
  Payload :: Inventory

definition NewMessage :: "32 word \<Rightarrow> CommandType \<Rightarrow> Inventory \<Rightarrow> Message" where
  "NewMessage magic cmd p = \<lparr>Magic = magic, Command = cmd, Payload = p\<rparr>"

text \<open>
  Modelled from the spec: the Peer interface (peer.go is not among the sources). A peer
  has the version it sent in the handshake (none before the handshake, Go's nil), and
  \<open>WriteMsg\<close> either puts the message on the wire or returns an error and sends nothing.
\<close>

record Peer =
  peer_version :: "Version option"
  peer_broken :: bool
  peer_sent :: "Message list"

definition WriteMsg :: "Peer \<Rightarrow> Message \<Rightarrow> string option \<times> Peer" where
  "WriteMsg p msg =
     (if peer_broken p then (Some ''write failed'', p)
      else (None, p\<lparr>peer_sent := peer_sent p @ [msg]\<rparr>))"

text \<open>
  Modelled from the spec: the transaction kinds of section 3 and the part of a transaction
  RelayTxn reads, its type and its hash (transaction.go is not among the sources).
\<close>

datatype TXType = MinerType | IssueType | ClaimType | EnrollmentType | RegisterType
  | VoteType | PublishType | InvocationType | ContractType

record Transaction =
  tx_Type :: TXType
  tx_Hash :: Uint256

text \<open>
  The core.Blockchainer interface, as far as the server calls it: the implementation is
  outside the sources, so the three calls are parameters over a chain state \<open>'c\<close>.
  \<open>VerifyTx\<close> is true when the call returns no error; \<open>TryAdd\<close> is the mempool's answer and
  the chain state with the pool updated.
\<close>

record 'c Blockchainer =
  HasTransaction :: "'c \<Rightarrow> Uint256 \<Rightarrow> bool"
  VerifyTx :: "'c \<Rightarrow> Transaction \<Rightarrow> bool"
  TryAdd :: "'c \<Rightarrow> Uint256 \<Rightarrow> Transaction \<Rightarrow> bool \<times> 'c"

record 'c Server =
  Net :: "32 word"
  chain :: 'c
  peers :: "Peer list"

datatype RelayReason = RelaySucceed | RelayAlreadyExists | RelayOutOfMemory
  | RelayUnableToVerify | RelayInvalid | RelayPolicyFail

text \<open>Server.handleInvCmd: the reply goes to the announcing peer; the result is WriteMsg's.\<close>

definition handleInvCmd :: "'c Server \<Rightarrow> Peer \<Rightarrow> Inventory \<Rightarrow> string option \<times> Peer" where
  "handleInvCmd s p iv =
     (let payload = NewInventory (inv_Type iv) (Hashes iv)
      in WriteMsg p (NewMessage (Net s) CMDGetData payload))"




text \<open>Concrete servers for the closed examples: a chain state is the list of hashes it holds.\<close>

definition list_chain :: "nat \<Rightarrow> (Uint256 list) Blockchainer" where
  "list_chain cap =
     \<lparr>HasTransaction = (\<lambda>c h. h \<in> set c),
      VerifyTx = (\<lambda>c t. True),
      TryAdd = (\<lambda>c h t. if length c < cap then (True, c @ [h]) else (False, c))\<rparr>"

definition peer0 :: "bool \<Rightarrow> Peer" where
  "peer0 r =
     \<lparr>peer_version = Some \<lparr>Version = 0, Services = 1, Timestamp = 0, Port = 0, Nonce = 7,
        UserAgent = [], StartHeight = 0, Relay = r\<rparr>,
      peer_broken = False, peer_sent = []\<rparr>"

definition server0 :: "Uint256 list \<Rightarrow> (Uint256 list) Server" where
  "server0 c = \<lparr>Net = 56753, chain = c, peers = [peer0 True, peer0 False]\<rparr>"


section \<open>Binary serialisation of the wire and persistence types\<close>

text \<open>
  Modelled from the spec: the binary reader and writer of pkg/io (not among the sources),
  after section 6: primitives are little-endian, a boolean is one byte, and every
  variable-length sequence has a var-uint size prefix (below 0xFD one byte; 0xFD and two
  bytes; 0xFE and four bytes; 0xFF and eight bytes). The writer is the list of bytes
  written so far. The reader holds the bytes not yet read and its sticky error flag: a
  read on too few bytes sets the flag, a read with the flag set does nothing, and a
  destination that was not read keeps the value it had.
\<close>

fun le_bytes :: "nat \<Rightarrow> nat \<Rightarrow> byte list" where
  "le_bytes 0 x = []"
| "le_bytes (Suc n) x = of_nat (x mod 256) # le_bytes n (x div 256)"

fun le_nat :: "byte list \<Rightarrow> nat" where
  "le_nat [] = 0"
| "le_nat (b # bs) = unat b + 256 * le_nat bs"

type_synonym BinWriter = "byte list"

record BinReader =
  buf :: "byte list"
  Err :: bool

definition NewBinReaderFromBuf :: "byte list \<Rightarrow> BinReader" where
  "NewBinReaderFromBuf b = \<lparr>buf = b, Err = False\<rparr>"

definition read_raw :: "nat \<Rightarrow> BinReader \<Rightarrow> byte list option \<times> BinReader" where
  "read_raw n r =
     (if Err r then (None, r)
      else if length (buf r) < n then (None, \<lparr>buf = [], Err = True\<rparr>)
      else (Some (take n (buf r)), r\<lparr>buf := drop n (buf r)\<rparr>))"

definition WriteLE :: "BinWriter \<Rightarrow> 'a::len word \<Rightarrow> BinWriter" where
  "WriteLE bw v = bw @ le_bytes (LENGTH('a) div 8) (unat v)"

definition ReadLE :: "BinReader \<Rightarrow> 'a::len word \<Rightarrow> 'a word \<times> BinReader" where
  "ReadLE r d =
     (case read_raw (LENGTH('a) div 8) r of
        (None, r') \<Rightarrow> (d, r')
      | (Some bs, r') \<Rightarrow> (of_nat (le_nat bs), r'))"

definition WriteLE_bool :: "BinWriter \<Rightarrow> bool \<Rightarrow> BinWriter" where
  "WriteLE_bool bw v = bw @ [if v then 1 else 0]"

definition ReadLE_bool :: "BinReader \<Rightarrow> bool \<Rightarrow> bool \<times> BinReader" where
  "ReadLE_bool r d =
     (case read_raw 1 r of
        (None, r') \<Rightarrow> (d, r')
      | (Some bs, r') \<Rightarrow> (hd bs \<noteq> 0, r'))"

definition WriteVarUint :: "BinWriter \<Rightarrow> 64 word \<Rightarrow> BinWriter" where
  "WriteVarUint bw v =
     (if v < 0xFD then WriteLE bw (ucast v :: 8 word)
      else if v \<le> 0xFFFF then WriteLE (WriteLE bw (0xFD :: 8 word)) (ucast v :: 16 word)
      else if v \<le> 0xFFFFFFFF then WriteLE (WriteLE bw (0xFE :: 8 word)) (ucast v :: 32 word)
      else WriteLE (WriteLE bw (0xFF :: 8 word)) v)"

definition ReadVarUint :: "BinReader \<Rightarrow> 64 word \<times> BinReader" where
  "ReadVarUint r =
     (case ReadLE r (0 :: 8 word) of
        (b, r1) \<Rightarrow>
          if b = 0xFD then (case ReadLE r1 (0 :: 16 word) of (v, r2) \<Rightarrow> (ucast v, r2))
          else if b = 0xFE then (case ReadLE r1 (0 :: 32 word) of (v, r2) \<Rightarrow> (ucast v, r2))
          else if b = 0xFF then ReadLE r1 (0 :: 64 word)
          else (ucast b, r1))"

definition WriteBytes :: "BinWriter \<Rightarrow> byte list \<Rightarrow> BinWriter" where
  "WriteBytes bw b = WriteVarUint bw (of_nat (length b)) @ b"

definition ReadBytes :: "BinReader \<Rightarrow> byte list \<times> BinReader" where
  "ReadBytes r =
     (case ReadVarUint r of
        (n, r1) \<Rightarrow>
          (case read_raw (unat n) r1 of
             (None, r2) \<Rightarrow> (replicate (unat n) 0, r2)
           | (Some bs, r2) \<Rightarrow> (bs, r2)))"

text \<open>A Go string is its bytes: WriteString and ReadString are WriteBytes and ReadBytes.\<close>

definition WriteString :: "BinWriter \<Rightarrow> byte list \<Rightarrow> BinWriter" where
  "WriteString bw s = WriteBytes bw s"

definition ReadString :: "BinReader \<Rightarrow> byte list \<times> BinReader" where
  "ReadString r = ReadBytes r"

text \<open>
  \<open>WriteLE\<close> and \<open>ReadLE\<close> on a slice of 32-byte hashes: the elements one after the other;
  the read fills a slice of the given length in one go, or leaves it zeroed.
\<close>

definition WriteLE_hashes :: "BinWriter \<Rightarrow> Uint256 list \<Rightarrow> BinWriter" where
  "WriteLE_hashes bw hs = bw @ concat (map (\<lambda>h. le_bytes 32 (unat h)) hs)"

fun hashes_of_bytes :: "nat \<Rightarrow> byte list \<Rightarrow> Uint256 list" where
  "hashes_of_bytes 0 bs = []"
| "hashes_of_bytes (Suc n) bs = of_nat (le_nat (take 32 bs)) # hashes_of_bytes n (drop 32 bs)"

definition ReadLE_hashes :: "BinReader \<Rightarrow> nat \<Rightarrow> Uint256 list \<times> BinReader" where
  "ReadLE_hashes r n =
     (case read_raw (32 * n) r of
        (None, r') \<Rightarrow> (replicate n 0, r')
      | (Some bs, r') \<Rightarrow> (hashes_of_bytes n bs, r'))"

subsection \<open>payload.Version\<close>

definition Version_EncodeBinary :: "Version \<Rightarrow> BinWriter \<Rightarrow> BinWriter" where
  "Version_EncodeBinary p br =
     (let br = WriteLE br (Version p);
          br = WriteLE br (Services p);
          br = WriteLE br (Timestamp p);
          br = WriteLE br (Port p);
          br = WriteLE br (Nonce p);
          br = WriteBytes br (UserAgent p);
          br = WriteLE br (StartHeight p)
      in WriteLE_bool br (Relay p))"

definition Version_DecodeBinary :: "Version \<Rightarrow> BinReader \<Rightarrow> Version \<times> BinReader" where
  "Version_DecodeBinary p br =
     (case ReadLE br (Version p) of (v, br) \<Rightarrow>
      case ReadLE br (Services p) of (s, br) \<Rightarrow>
      case ReadLE br (Timestamp p) of (t, br) \<Rightarrow>
      case ReadLE br (Port p) of (po, br) \<Rightarrow>
      case ReadLE br (Nonce p) of (n, br) \<Rightarrow>
      case ReadBytes br of (ua, br) \<Rightarrow>
      case ReadLE br (StartHeight p) of (h, br) \<Rightarrow>
      case ReadLE_bool br (Relay p) of (rl, br) \<Rightarrow>
        (\<lparr>Version = v, Services = s, Timestamp = t, Port = po, Nonce = n,
          UserAgent = ua, StartHeight = h, Relay = rl\<rparr>, br))"

subsection \<open>payload.GetBlocks\<close>

record GetBlocks =
  HashStart :: "Uint256 list"
  HashStop :: Uint256

definition GetBlocks_EncodeBinary :: "GetBlocks \<Rightarrow> BinWriter \<Rightarrow> BinWriter" where
  "GetBlocks_EncodeBinary p bw =
     (let bw = WriteVarUint bw (of_nat (length (HashStart p)));
          bw = WriteLE_hashes bw (HashStart p)
      in WriteLE bw (HashStop p))"

definition GetBlocks_DecodeBinary :: "GetBlocks \<Rightarrow> BinReader \<Rightarrow> GetBlocks \<times> BinReader" where
  "GetBlocks_DecodeBinary p br =
     (case ReadVarUint br of (lenStart, br) \<Rightarrow>
      case ReadLE_hashes br (unat lenStart) of (hs, br) \<Rightarrow>
      case ReadLE br (HashStop p) of (st, br) \<Rightarrow>
        (\<lparr>HashStart = hs, HashStop = st\<rparr>, br))"

subsection \<open>transaction.PublishTX\<close>

text \<open>
  Modelled from the spec: smartcontract.ParamType (its declaration is not among the
  sources) is the one-byte code that stands for it on the wire.
\<close>

type_synonym ParamType = "8 word"

record PublishTX =
  Script :: "byte list"
  ParamList :: "ParamType list"
  ReturnType :: ParamType
  NeedStorage :: bool
  Name :: "byte list"
  CodeVersion :: "byte list"
  Author :: "byte list"
  Email :: "byte list"
  Description :: "byte list"
  tx_Version :: "8 word"

fun write_params :: "BinWriter \<Rightarrow> ParamType list \<Rightarrow> BinWriter" where
  "write_params bw [] = bw"
| "write_params bw (param # ps) = write_params (WriteLE bw param) ps"

fun read_params :: "nat \<Rightarrow> BinReader \<Rightarrow> ParamType list \<times> BinReader" where
  "read_params 0 br = ([], br)"
| "read_params (Suc n) br =
     (case ReadLE br (0 :: 8 word) of
        (ptype, br) \<Rightarrow> (case read_params n br of (ps, br) \<Rightarrow> (ptype # ps, br)))"

definition PublishTX_EncodeBinary :: "PublishTX \<Rightarrow> BinWriter \<Rightarrow> BinWriter" where
  "PublishTX_EncodeBinary tx bw =
     (let bw = WriteBytes bw (Script tx);
          bw = WriteVarUint bw (of_nat (length (ParamList tx)));
          bw = write_params bw (ParamList tx);
          bw = WriteLE bw (ReturnType tx);
          bw = (if tx_Version tx \<ge> 1 then WriteLE_bool bw (NeedStorage tx) else bw);
          bw = WriteString bw (Name tx);
          bw = WriteString bw (CodeVersion tx);
          bw = WriteString bw (Author tx);
          bw = WriteString bw (Email tx)
      in WriteString bw (Description tx))"

definition PublishTX_DecodeBinary :: "PublishTX \<Rightarrow> BinReader \<Rightarrow> PublishTX \<times> BinReader" where
  "PublishTX_DecodeBinary tx br =
     (case ReadBytes br of (script, br) \<Rightarrow>
      case ReadVarUint br of (lenParams, br) \<Rightarrow>
      case read_params (unat lenParams) br of (params, br) \<Rightarrow>
      case ReadLE br (0 :: 8 word) of (rtype, br) \<Rightarrow>
      case (if tx_Version tx \<ge> 1 then ReadLE_bool br (NeedStorage tx) else (False, br)) of
        (ns, br) \<Rightarrow>
      case ReadString br of (name, br) \<Rightarrow>
      case ReadString br of (cv, br) \<Rightarrow>
      case ReadString br of (author, br) \<Rightarrow>
      case ReadString br of (email, br) \<Rightarrow>
      case ReadString br of (descr, br) \<Rightarrow>
        (\<lparr>Script = script, ParamList = params, ReturnType = rtype, NeedStorage = ns,
          Name = name, CodeVersion = cv, Author = author, Email = email,
          Description = descr, tx_Version = tx_Version tx\<rparr>, br))"

text \<open>Concrete values for the closed examples.\<close>

definition version1 :: Version where
  "version1 = \<lparr>Version = 0, Services = 1, Timestamp = 1573000000, Port = 20333, Nonce = 4242,
     UserAgent = [0x2F, 0x4E, 0x45, 0x4F, 0x2F], StartHeight = 300, Relay = True\<rparr>"

definition getblocks1 :: GetBlocks where
  "getblocks1 = \<lparr>HashStart = [7, 2 ^ 255 + 9], HashStop = 0\<rparr>"

definition publish1 :: "8 word \<Rightarrow> bool \<Rightarrow> PublishTX" where
  "publish1 v ns = \<lparr>Script = [0x51, 0x66], ParamList = [5, 7], ReturnType = 1, NeedStorage = ns,
     Name = [0x61], CodeVersion = [0x31], Author = [], Email = [], Description = [0x64],
     tx_Version = v\<rparr>"


section \<open>Virtual machine\<close>

subsection \<open>Stack items and the store of collection objects\<close>

text \<open>
  Modelled from the spec: the stack item types of section 4.1 (stack_item.go is not among
  the sources). Arrays, structs and maps are Go pointers: an item of these kinds holds a
  reference into a store of objects, so that two items may denote the same object. An
  array or struct object is its slice of items, a map object its entries.
\<close>

type_synonym ref = nat

datatype StackItem =
    BoolItem bool
  | BigIntegerItem int
  | ByteArrayItem "byte list"
  | ArrayItem ref
  | StructItem ref
  | MapItem ref
  | InteropItem nat

datatype object = ItemsObj "StackItem list" | MapObj "(StackItem \<times> StackItem) list"

fun items_at :: "object list \<Rightarrow> ref \<Rightarrow> StackItem list" where
  "items_at h r = (if r < length h then (case h ! r of ItemsObj xs \<Rightarrow> xs | MapObj kvs \<Rightarrow> []) else [])"

fun entries_at :: "object list \<Rightarrow> ref \<Rightarrow> (StackItem \<times> StackItem) list" where
  "entries_at h r = (if r < length h then (case h ! r of ItemsObj xs \<Rightarrow> [] | MapObj kvs \<Rightarrow> kvs) else [])"

fun is_collection :: "StackItem \<Rightarrow> bool" where
  "is_collection (ArrayItem r) = True"
| "is_collection (StructItem r) = True"
| "is_collection (MapItem r) = True"
| "is_collection _ = False"

fun ref_of :: "StackItem \<Rightarrow> ref" where
  "ref_of (ArrayItem r) = r"
| "ref_of (StructItem r) = r"
| "ref_of (MapItem r) = r"
| "ref_of _ = 0"

fun children :: "object list \<Rightarrow> StackItem \<Rightarrow> StackItem list" where
  "children h (ArrayItem r) = items_at h r"
| "children h (StructItem r) = items_at h r"
| "children h (MapItem r) = map snd (entries_at h r)"
| "children h _ = []"

subsection \<open>The machine state\<close>

text \<open>
  Modelled from the spec: the state flags (state.go is absent): none, halt, fault and
  break, not exclusive; the state is the set of flags that are set, none the empty set.
\<close>

datatype StateFlag = haltFlag | faultFlag | breakFlag

type_synonym State = "StateFlag set"

definition noneState :: State where "noneState = {}"
definition haltState :: State where "haltState = {haltFlag}"
definition faultState :: State where "faultState = {faultFlag}"
definition breakState :: State where "breakState = {breakFlag}"

definition HasFlag :: "State \<Rightarrow> State \<Rightarrow> bool" where
  "HasFlag s f = (s \<inter> f \<noteq> {})"

text \<open>
  Modelled from the spec: an execution context (context.go is absent): the script, the
  instruction pointer of the instruction being executed, the pointer to the next one, the
  return-value count and the break-points.
\<close>

record Context =
  prog :: "byte list"
  ip :: int
  nextip :: int
  rvcount :: int
  breakPoints :: "int list"


definition atBreakPoint :: "Context \<Rightarrow> bool" where
  "atBreakPoint c = (ip c \<in> set (breakPoints c))"

text \<open>
  The VM struct. The evaluation and alt stacks are lists with the top first. \<open>itemCount\<close>
  and \<open>size_vm\<close> are the fields itemCount and size, which New shares with the evaluation and
  the alt stack only (newItemStack); the invocation stack is made by NewStack and has no
  counter. \<open>heap\<close> is the store of collection objects. The interop table and the script
  getter are used only by instructions that are not translated here.
\<close>

record VM =
  state :: State
  istack :: "Context list"
  estack :: "StackItem list"
  astack :: "StackItem list"
  checkhash :: "byte list option"
  itemCount :: "ref \<Rightarrow> nat"
  size_vm :: int
  heap :: "object list"

definition MaxArraySize :: int where "MaxArraySize = 1024"
definition MaxItemSize :: int where "MaxItemSize = 1024 * 1024"
definition MaxInvocationStackSize :: int where "MaxInvocationStackSize = 1024"
definition MaxBigIntegerSizeBits :: int where "MaxBigIntegerSizeBits = 32 * 8"
definition MaxStackSize :: int where "MaxStackSize = 2 * 1024"
definition maxSHLArg :: int where "maxSHLArg = MaxBigIntegerSizeBits"
definition minSHLArg :: int where "minSHLArg = - MaxBigIntegerSizeBits"



definition SetCheckedHash :: "byte list \<Rightarrow> VM \<Rightarrow> VM" where
  "SetCheckedHash h v = v\<lparr>checkhash := Some h\<rparr>"

definition Ready :: "VM \<Rightarrow> bool" where
  "Ready v = (length (istack v) > 0)"

definition HasFailed :: "VM \<Rightarrow> bool" where
  "HasFailed v = HasFlag (state v) faultState"

definition HasHalted :: "VM \<Rightarrow> bool" where
  "HasHalted v = HasFlag (state v) haltState"

subsection \<open>Item counting\<close>

text \<open>
  Modelled from the spec: the accounting behind the limit of 2048 items (stack.go is
  absent). It follows TestStackLimit: an item put on a counted stack counts one, and a
  collection that was not counted before also counts its elements, recursively; an item
  taken off counts one less, and a collection that is counted for the last time also
  gives up its elements. \<open>itemCount\<close> says how often each collection is counted. The
  descent into elements is bounded by the number of objects in the store plus one, the
  depth no acyclic store exceeds.
\<close>

type_synonym counters = "(ref \<Rightarrow> nat) \<times> int"

fun updateSizeAdd :: "nat \<Rightarrow> object list \<Rightarrow> StackItem list \<Rightarrow> counters \<Rightarrow> counters" where
  "updateSizeAdd fuel h [] c = c"
| "updateSizeAdd fuel h (x # xs) (cnt, sz) =
     (if is_collection x then
        (if cnt (ref_of x) \<ge> 1 then updateSizeAdd fuel h xs (cnt(ref_of x := cnt (ref_of x) + 1), sz + 1)
         else (case fuel of
                 0 \<Rightarrow> updateSizeAdd 0 h xs (cnt(ref_of x := 1), sz + 1)
               | Suc f \<Rightarrow> updateSizeAdd fuel h xs
                           (updateSizeAdd f h (children h x) (cnt(ref_of x := 1), sz + 1))))
      else updateSizeAdd fuel h xs (cnt, sz + 1))"

fun updateSizeRemove :: "nat \<Rightarrow> object list \<Rightarrow> StackItem list \<Rightarrow> counters \<Rightarrow> counters" where
  "updateSizeRemove fuel h [] c = c"
| "updateSizeRemove fuel h (x # xs) (cnt, sz) =
     (if is_collection x then
        (if cnt (ref_of x) > 1 then updateSizeRemove fuel h xs (cnt(ref_of x := cnt (ref_of x) - 1), sz - 1)
         else (case fuel of
                 0 \<Rightarrow> updateSizeRemove 0 h xs (cnt(ref_of x := 0), sz - 1)
               | Suc f \<Rightarrow> updateSizeRemove fuel h xs
                           (updateSizeRemove f h (children h x) (cnt(ref_of x := 0), sz - 1))))
      else updateSizeRemove fuel h xs (cnt, sz - 1))"

definition count_add :: "StackItem \<Rightarrow> VM \<Rightarrow> VM" where
  "count_add x v =
     (case updateSizeAdd (Suc (length (heap v))) (heap v) [x] (itemCount v, size_vm v) of
        (cnt, sz) \<Rightarrow> v\<lparr>itemCount := cnt, size_vm := sz\<rparr>)"

definition count_remove :: "StackItem \<Rightarrow> VM \<Rightarrow> VM" where
  "count_remove x v =
     (case updateSizeRemove (Suc (length (heap v))) (heap v) [x] (itemCount v, size_vm v) of
        (cnt, sz) \<Rightarrow> v\<lparr>itemCount := cnt, size_vm := sz\<rparr>)"


subsection \<open>Instructions and the environment\<close>

text \<open>
  The instructions whose handlers are translated below, by their names in the source.
  \<open>PUSHBYTES n\<close> stands for PUSHBYTES1 to PUSHBYTES75. Every other opcode is \<open>OTHER\<close> with
  its byte: its handler is a parameter of the environment.
\<close>

datatype Instruction =
    PUSH0 | PUSHBYTES nat | PUSHDATA1 | PUSHDATA2 | PUSHDATA4
  | PUSHM1 | PUSH1 | PUSH2 | PUSH3 | PUSH4 | PUSH5 | PUSH6 | PUSH7 | PUSH8
  | PUSH9 | PUSH10 | PUSH11 | PUSH12 | PUSH13 | PUSH14 | PUSH15 | PUSH16
  | NOP | RET | TOALTSTACK | FROMALTSTACK | DUPFROMALTSTACK | DUP | SWAP | DROP | DEPTH
  | SUBSTR | LEFT | RIGHT | EQUAL | SHL | SHR
  | NEWARRAY | NEWSTRUCT | NEWMAP | CHECKMULTISIG | THROW
  | OTHER nat

text \<open>
  The opcode bytes of the PUSHM1 to PUSH16 family, which the handler computes with
  (TestPushm1to16 has PUSHM1 at 79, nothing at 80 and PUSH1 to PUSH16 from 81 on).
\<close>

fun opcode :: "Instruction \<Rightarrow> int" where
  "opcode PUSHM1 = 79" | "opcode PUSH1 = 81" | "opcode PUSH2 = 82" | "opcode PUSH3 = 83"
| "opcode PUSH4 = 84" | "opcode PUSH5 = 85" | "opcode PUSH6 = 86" | "opcode PUSH7 = 87"
| "opcode PUSH8 = 88" | "opcode PUSH9 = 89" | "opcode PUSH10 = 90" | "opcode PUSH11 = 91"
| "opcode PUSH12 = 92" | "opcode PUSH13 = 93" | "opcode PUSH14 = 94" | "opcode PUSH15 = 95"
| "opcode PUSH16 = 96" | "opcode _ = 0"

text \<open>How a handler ends: normally, by returning an error, or in a panic.\<close>

datatype outcome = Normal | Returned string | Panicked string

text \<open>
  What the machine takes from outside the sources, as parameters:
  \<^item> \<open>decode\<close>: the instruction decoding of Context.Next (context.go and the opcode table
    are absent): from the script and a position, the instruction, its immediate operand
    and the position after it, or the instruction and a decoding error;
  \<^item> \<open>bytes_to_int\<close>, \<open>int_to_bytes\<close>: the conversions between byte arrays and integers of
    Element.BigInt and Element.Bytes (stack.go is absent);
  \<^item> \<open>other\<close>: the handlers of the instructions not translated here;
  \<^item> \<open>curve_P\<close>, \<open>curve_B\<close>, \<open>ModSqrt\<close>, \<open>IsOnCurve\<close>, \<open>ecdsa_Verify\<close>: the P-256 parameters
    and the functions of Go's math/big, crypto/elliptic and crypto/ecdsa that
    publickey.go calls.
\<close>

record Env =
  decode :: "byte list \<Rightarrow> int \<Rightarrow> (Instruction \<times> string) + (Instruction \<times> byte list \<times> int)"
  bytes_to_int :: "byte list \<Rightarrow> int"
  int_to_bytes :: "int \<Rightarrow> byte list"
  other :: "nat \<Rightarrow> byte list \<Rightarrow> VM \<Rightarrow> outcome \<times> VM"
  curve_P :: nat
  curve_B :: nat
  ModSqrt :: "nat \<Rightarrow> nat \<Rightarrow> nat option"
  IsOnCurve :: "nat \<Rightarrow> nat \<Rightarrow> bool"
  ecdsa_Verify :: "nat \<times> nat \<Rightarrow> byte list \<Rightarrow> nat \<Rightarrow> nat \<Rightarrow> bool"

subsection \<open>Stack primitives\<close>

text \<open>
  A handler's action on the machine: the new state, and either a value or the message of
  a panic (\<open>Inl\<close>). A panic keeps what was done before it.
\<close>

type_synonym 'a act = "VM \<Rightarrow> (string + 'a) \<times> VM"

definition ret :: "'a \<Rightarrow> 'a act" where
  "ret x v = (Inr x, v)"

definition panic :: "string \<Rightarrow> 'a act" where
  "panic msg v = (Inl msg, v)"

definition bnd :: "'a act \<Rightarrow> ('a \<Rightarrow> 'b act) \<Rightarrow> 'b act" where
  "bnd m f v = (case m v of (Inl e, v') \<Rightarrow> (Inl e, v') | (Inr a, v') \<Rightarrow> f a v')"

text \<open>
  Modelled from the spec: the stack operations (stack.go is absent). Pop gives Go's nil
  (\<open>None\<close>) on an empty stack; Push of nil and every use of a nil element panic with a nil
  pointer dereference. Both stacks count their items in the machine's counters.
\<close>

definition estack_Pop :: "StackItem option act" where
  "estack_Pop v =
     (case estack v of
        [] \<Rightarrow> (Inr None, v)
      | x # xs \<Rightarrow> (Inr (Some x), count_remove x (v\<lparr>estack := xs\<rparr>)))"

definition astack_Pop :: "StackItem option act" where
  "astack_Pop v =
     (case astack v of
        [] \<Rightarrow> (Inr None, v)
      | x # xs \<Rightarrow> (Inr (Some x), count_remove x (v\<lparr>astack := xs\<rparr>)))"

definition estack_Push :: "StackItem option \<Rightarrow> unit act" where
  "estack_Push e v =
     (case e of
        None \<Rightarrow> (Inl ''nil pointer dereference'', v)
      | Some x \<Rightarrow> (Inr (), count_add x (v\<lparr>estack := x # estack v\<rparr>)))"

definition astack_Push :: "StackItem option \<Rightarrow> unit act" where
  "astack_Push e v =
     (case e of
        None \<Rightarrow> (Inl ''nil pointer dereference'', v)
      | Some x \<Rightarrow> (Inr (), count_add x (v\<lparr>astack := x # astack v\<rparr>)))"

definition estack_PushVal :: "StackItem \<Rightarrow> unit act" where
  "estack_PushVal x = estack_Push (Some x)"

definition estack_Dup :: "nat \<Rightarrow> StackItem option act" where
  "estack_Dup n v = (Inr (if n < length (estack v) then Some (estack v ! n) else None), v)"

definition astack_Dup :: "nat \<Rightarrow> StackItem option act" where
  "astack_Dup n v = (Inr (if n < length (astack v) then Some (astack v ! n) else None), v)"

definition estack_Len :: "int act" where
  "estack_Len v = (Inr (int (length (estack v))), v)"

text \<open>The value of a popped element: a nil element is a nil pointer dereference.\<close>

definition elem_value :: "StackItem option \<Rightarrow> StackItem act" where
  "elem_value e = (case e of None \<Rightarrow> panic ''nil pointer dereference'' | Some x \<Rightarrow> ret x)"

text \<open>
  Modelled from the spec: Element.Bytes and Element.BigInt (stack.go is absent). A byte
  array is its bytes and an integer its value; a boolean is 1 or 0 as an integer, and the
  bytes [1] or, for false, the empty string (section 9: SIZE of a boolean false is 0);
  the other direction goes through the environment's conversions; a collection or an
  interop item panics.
\<close>

fun Bytes :: "Env \<Rightarrow> StackItem \<Rightarrow> string + byte list" where
  "Bytes env (ByteArrayItem b) = Inr b"
| "Bytes env (BigIntegerItem i) = Inr (int_to_bytes env i)"
| "Bytes env (BoolItem b) = Inr (if b then [1] else [])"
| "Bytes env _ = Inl ''can't convert to []byte''"

fun BigInt :: "Env \<Rightarrow> StackItem \<Rightarrow> string + int" where
  "BigInt env (BigIntegerItem i) = Inr i"
| "BigInt env (BoolItem b) = Inr (if b then 1 else 0)"
| "BigInt env (ByteArrayItem b) = Inr (bytes_to_int env b)"
| "BigInt env _ = Inl ''interface conversion''"

definition lift :: "string + 'a \<Rightarrow> 'a act" where
  "lift r = (case r of Inl e \<Rightarrow> panic e | Inr a \<Rightarrow> ret a)"

text \<open>
  big.Int.Int64: the value itself when it fits 64 bits; Go's implementation takes the low
  64 bits of the magnitude and applies the sign, which is the value modulo 2^64 read as
  two's complement.
\<close>

definition Int64 :: "int \<Rightarrow> int" where
  "Int64 x = sint (word_of_int x :: 64 word)"

text \<open>\<open>v.estack.Pop().Bytes()\<close> and \<open>v.estack.Pop().BigInt()\<close>.\<close>

definition pop_Bytes :: "Env \<Rightarrow> byte list act" where
  "pop_Bytes env = bnd estack_Pop (\<lambda>e. bnd (elem_value e) (\<lambda>x. lift (Bytes env x)))"

definition pop_BigInt :: "Env \<Rightarrow> int act" where
  "pop_BigInt env = bnd estack_Pop (\<lambda>e. bnd (elem_value e) (\<lambda>x. lift (BigInt env x)))"

definition alloc :: "object \<Rightarrow> ref act" where
  "alloc ob v = (Inr (length (heap v)), v\<lparr>heap := heap v @ [ob]\<rparr>)"

text \<open>big.Int.BitLen: the length of the absolute value in bits, 0 for 0.\<close>

fun bit_length_nat :: "nat \<Rightarrow> nat" where
  "bit_length_nat n = (if n = 0 then 0 else Suc (bit_length_nat (n div 2)))"

declare bit_length_nat.simps [simp del]

definition BitLen :: "int \<Rightarrow> nat" where
  "BitLen a = bit_length_nat (nat \<bar>a\<bar>)"

definition checkBigIntSize :: "int \<Rightarrow> unit act" where
  "checkBigIntSize a =
     (if int (BitLen a) > MaxBigIntegerSizeBits then panic ''big integer is too big'' else ret ())"


subsection \<open>Public keys (pkg/crypto/keys/publickey.go)\<close>

text \<open>A key is its point; Go's nil coordinates (the point at infinity) are \<open>None\<close>.\<close>

record PublicKey =
  X :: "nat option"
  Y :: "nat option"

text \<open>big.Int.SetBytes reads big-endian.\<close>

definition be_nat :: "byte list \<Rightarrow> nat" where
  "be_nat bs = le_nat (rev bs)"

definition decodeCompressedY :: "Env \<Rightarrow> nat \<Rightarrow> nat \<Rightarrow> string + nat" where
  "decodeCompressedY env x ylsb =
     (let p = curve_P env;
          xCubed = x ^ 3 mod p;
          threeX = (x * 3) mod p;
          ySquared = nat ((int xCubed - int threeX + int (curve_B env)) mod int p)
      in case ModSqrt env ySquared p of
           None \<Rightarrow> Inl ''error computing Y for compressed point''
         | Some y \<Rightarrow> Inr (if y mod 2 \<noteq> ylsb then nat ((- int y) mod int p) else y))"

definition check_point :: "Env \<Rightarrow> nat \<Rightarrow> nat \<Rightarrow> string + PublicKey" where
  "check_point env x y =
     (if \<not> IsOnCurve env x y then Inl ''enccoded point is not on the P256 curve''
      else if x \<ge> curve_P env \<or> y \<ge> curve_P env
        then Inl ''enccoded point is not correct (X or Y is bigger than P''
      else Inr \<lparr>X = Some x, Y = Some y\<rparr>)"

text \<open>
  PublicKey.DecodeBytes on a fresh key: the error of the reader (\<open>Inl\<close>) or the key. When
  the compressed Y cannot be computed, DecodeBinary returns without setting the reader's
  error, and the key keeps its nil coordinates.
\<close>

definition DecodeBytes :: "Env \<Rightarrow> byte list \<Rightarrow> string + PublicKey" where
  "DecodeBytes env data =
     (case read_raw 1 (NewBinReaderFromBuf data) of
        (None, r) \<Rightarrow> Inl ''unexpected EOF''
      | (Some pb, r) \<Rightarrow>
          (let prefix = hd pb in
           if prefix = 0x00 then Inr \<lparr>X = None, Y = None\<rparr>
           else if prefix = 0x02 \<or> prefix = 0x03 then
             (case read_raw 32 r of
                (None, r') \<Rightarrow> Inl ''unexpected EOF''
              | (Some xbytes, r') \<Rightarrow>
                  (case decodeCompressedY env (be_nat xbytes) (unat prefix mod 2) of
                     Inl e \<Rightarrow> Inr \<lparr>X = None, Y = None\<rparr>
                   | Inr y \<Rightarrow> check_point env (be_nat xbytes) y))
           else if prefix = 0x04 then
             (case read_raw 32 r of
                (None, r') \<Rightarrow> Inl ''unexpected EOF''
              | (Some xbytes, r') \<Rightarrow>
                  (case read_raw 32 r' of
                     (None, r'') \<Rightarrow> Inl ''unexpected EOF''
                   | (Some ybytes, r'') \<Rightarrow> check_point env (be_nat xbytes) (be_nat ybytes)))
           else Inl ''invalid prefix''))"

text \<open>
  PublicKey.Verify. The signature is sliced at 32 and 64 bytes: a shorter one is a slice
  bounds panic (\<open>Inl\<close>; a byte string is taken to have no spare capacity).
\<close>

definition Verify :: "Env \<Rightarrow> PublicKey \<Rightarrow> byte list \<Rightarrow> byte list \<Rightarrow> string + bool" where
  "Verify env p signature hash =
     (case (X p, Y p) of
        (Some x, Some y) \<Rightarrow>
          if length signature < 64 then Inl ''slice bounds out of range''
          else Inr (ecdsa_Verify env (x, y) hash
                      (be_nat (take 32 signature)) (be_nat (take 32 (drop 32 signature))))
      | _ \<Rightarrow> Inr False)"

subsection \<open>The handlers of VM.execute\<close>

definition op_PUSHINT :: "Instruction \<Rightarrow> unit act" where
  "op_PUSHINT op = (let val = opcode op - opcode PUSH1 + 1 in estack_PushVal (BigIntegerItem val))"

definition op_TOALTSTACK :: "unit act" where
  "op_TOALTSTACK = bnd estack_Pop astack_Push"

definition op_FROMALTSTACK :: "unit act" where
  "op_FROMALTSTACK = bnd astack_Pop estack_Push"

definition op_DUPFROMALTSTACK :: "unit act" where
  "op_DUPFROMALTSTACK = bnd (astack_Dup 0) estack_Push"

definition op_DUP :: "unit act" where
  "op_DUP = bnd (estack_Dup 0) estack_Push"

definition op_SWAP :: "unit act" where
  "op_SWAP = bnd estack_Pop (\<lambda>a. bnd estack_Pop (\<lambda>b. bnd (estack_Push a) (\<lambda>u. estack_Push b)))"

definition op_DROP :: "unit act" where
  "op_DROP =
     bnd estack_Len (\<lambda>n. if n < 1 then panic ''stack is too small''
                          else bnd estack_Pop (\<lambda>e. ret ()))"

definition op_DEPTH :: "unit act" where
  "op_DEPTH = bnd estack_Len (\<lambda>n. estack_PushVal (BigIntegerItem n))"

definition op_SUBSTR :: "Env \<Rightarrow> unit act" where
  "op_SUBSTR env =
     bnd (pop_BigInt env) (\<lambda>lb. let l = Int64 lb in
       if l < 0 then panic ''negative length''
       else bnd (pop_BigInt env) (\<lambda>ob. let o' = Int64 ob in
         if o' < 0 then panic ''negative index''
         else bnd (pop_Bytes env) (\<lambda>s.
           if o' > int (length s) then estack_PushVal (ByteArrayItem [])
           else (let last = l + o';
                     last = (if last > int (length s) then int (length s) else last)
                 in estack_PushVal (ByteArrayItem (drop (nat o') (take (nat last) s)))))))"

definition op_LEFT :: "Env \<Rightarrow> unit act" where
  "op_LEFT env =
     bnd (pop_BigInt env) (\<lambda>lb. let l = Int64 lb in
       if l < 0 then panic ''negative length''
       else bnd (pop_Bytes env) (\<lambda>s.
         let t = int (length s); l = (if l > t then t else l)
         in estack_PushVal (ByteArrayItem (take (nat l) s))))"

definition op_RIGHT :: "Env \<Rightarrow> unit act" where
  "op_RIGHT env =
     bnd (pop_BigInt env) (\<lambda>lb. let l = Int64 lb in
       if l < 0 then panic ''negative length''
       else bnd (pop_Bytes env) (\<lambda>s.
         if int (length s) - l < 0 then panic ''slice bounds out of range''
         else estack_PushVal (ByteArrayItem (drop (nat (int (length s) - l)) s))))"

text \<open>
  reflect.DeepEqual on two popped elements compares their items: items of different
  kinds differ; booleans, integers, byte arrays and interop handles are compared by
  value; two pointers to arrays, structs or maps are equal when they are the same
  pointer or when the objects behind them are deeply equal (slices element by element,
  maps key by key). Go cuts cycles by taking a pair it is already comparing as equal;
  here the descent is bounded by the number of objects in the store plus one.
\<close>

primrec deep_equal :: "nat \<Rightarrow> object list \<Rightarrow> StackItem \<Rightarrow> StackItem \<Rightarrow> bool" where
  "deep_equal 0 h a b =
     (case (a, b) of
        (BoolItem x, BoolItem y) \<Rightarrow> x = y
      | (BigIntegerItem x, BigIntegerItem y) \<Rightarrow> x = y
      | (ByteArrayItem x, ByteArrayItem y) \<Rightarrow> x = y
      | (InteropItem x, InteropItem y) \<Rightarrow> x = y
      | (ArrayItem r, ArrayItem s) \<Rightarrow> True
      | (StructItem r, StructItem s) \<Rightarrow> True
      | (MapItem r, MapItem s) \<Rightarrow> True
      | _ \<Rightarrow> False)"
| "deep_equal (Suc f) h a b =
     (case (a, b) of
        (BoolItem x, BoolItem y) \<Rightarrow> x = y
      | (BigIntegerItem x, BigIntegerItem y) \<Rightarrow> x = y
      | (ByteArrayItem x, ByteArrayItem y) \<Rightarrow> x = y
      | (InteropItem x, InteropItem y) \<Rightarrow> x = y
      | (ArrayItem r, ArrayItem s) \<Rightarrow>
          r = s \<or> list_all2 (deep_equal f h) (items_at h r) (items_at h s)
      | (StructItem r, StructItem s) \<Rightarrow>
          r = s \<or> list_all2 (deep_equal f h) (items_at h r) (items_at h s)
      | (MapItem r, MapItem s) \<Rightarrow>
          r = s \<or> (length (entries_at h r) = length (entries_at h s)
                    \<and> list_all (\<lambda>kv. case map_of (entries_at h s) (fst kv) of
                                         None \<Rightarrow> False
                                       | Some w \<Rightarrow> deep_equal f h (snd kv) w) (entries_at h r))
      | _ \<Rightarrow> False)"

definition DeepEqual :: "object list \<Rightarrow> StackItem \<Rightarrow> StackItem \<Rightarrow> bool" where
  "DeepEqual h a b = deep_equal (Suc (length h)) h a b"

definition op_EQUAL :: "unit act" where
  "op_EQUAL =
     bnd estack_Pop (\<lambda>b. case b of
         None \<Rightarrow> panic ''no top-level element found''
       | Some bv \<Rightarrow>
           bnd estack_Pop (\<lambda>a. case a of
               None \<Rightarrow> panic ''no second-to-the-top element found''
             | Some av \<Rightarrow>
                 (case (av, bv) of
                    (ArrayItem ta, ArrayItem tb) \<Rightarrow> estack_PushVal (BoolItem (ta = tb))
                  | (MapItem ma, MapItem mb) \<Rightarrow> estack_PushVal (BoolItem (ma = mb))
                  | _ \<Rightarrow> (\<lambda>v. estack_PushVal (BoolItem (DeepEqual (heap v) av bv)) v))))"

text \<open>
  SHL and SHR. \<open>uint(b)\<close> of the 64-bit count is the count modulo 2^64; Lsh multiplies by
  the power of two and Rsh divides by it, rounding down.
\<close>

definition uint64 :: "int \<Rightarrow> nat" where
  "uint64 b = nat (b mod 2 ^ 64)"

definition Lsh :: "int \<Rightarrow> nat \<Rightarrow> int" where
  "Lsh a n = a * 2 ^ n"

definition Rsh :: "int \<Rightarrow> nat \<Rightarrow> int" where
  "Rsh a n = a div 2 ^ n"

definition op_SHIFT :: "Env \<Rightarrow> Instruction \<Rightarrow> unit act" where
  "op_SHIFT env op =
     bnd (pop_BigInt env) (\<lambda>bb. let b = Int64 bb in
       if b = 0 then ret ()
       else if b < minSHLArg \<or> b > maxSHLArg then panic ''operand must be between -256 and 256''
       else bnd (pop_BigInt env) (\<lambda>a.
         bnd (checkBigIntSize a) (\<lambda>u.
           let item = (if op = SHL then Lsh a (uint64 b) else Rsh a (uint64 b))
           in bnd (checkBigIntSize item) (\<lambda>u. estack_PushVal (BigIntegerItem item)))))"

definition makeArrayOfFalses :: "nat \<Rightarrow> StackItem list" where
  "makeArrayOfFalses n = replicate n (BoolItem False)"

text \<open>
  NEWARRAY and NEWSTRUCT. \<open>make\<close> with a negative length is a runtime panic. The new
  object of a conversion holds a copy of the other object's slice.
\<close>

definition op_NEWARRAY :: "Env \<Rightarrow> unit act" where
  "op_NEWARRAY env =
     bnd estack_Pop (\<lambda>e. bnd (elem_value e) (\<lambda>item. case item of
         StructItem t \<Rightarrow>
           (\<lambda>v. bnd (alloc (ItemsObj (items_at (heap v) t))) (\<lambda>r. estack_PushVal (ArrayItem r)) v)
       | ArrayItem t \<Rightarrow> estack_PushVal (ArrayItem t)
       | _ \<Rightarrow>
           bnd (lift (BigInt env item)) (\<lambda>nb. let n = Int64 nb in
             if n > MaxArraySize then panic ''too long array''
             else if n < 0 then panic ''makeslice: len out of range''
             else bnd (alloc (ItemsObj (makeArrayOfFalses (nat n))))
                      (\<lambda>r. estack_PushVal (ArrayItem r)))))"

definition op_NEWSTRUCT :: "Env \<Rightarrow> unit act" where
  "op_NEWSTRUCT env =
     bnd estack_Pop (\<lambda>e. bnd (elem_value e) (\<lambda>item. case item of
         ArrayItem t \<Rightarrow>
           (\<lambda>v. bnd (alloc (ItemsObj (items_at (heap v) t))) (\<lambda>r. estack_PushVal (StructItem r)) v)
       | StructItem t \<Rightarrow> estack_PushVal (StructItem t)
       | _ \<Rightarrow>
           bnd (lift (BigInt env item)) (\<lambda>nb. let n = Int64 nb in
             if n > MaxArraySize then panic ''too long struct''
             else if n < 0 then panic ''makeslice: len out of range''
             else bnd (alloc (ItemsObj (makeArrayOfFalses (nat n))))
                      (\<lambda>r. estack_PushVal (StructItem r)))))"

definition op_NEWMAP :: "unit act" where
  "op_NEWMAP = bnd (alloc (MapObj [])) (\<lambda>r. estack_Push (Some (MapItem r)))"

text \<open>
  Modelled from the spec: Stack.popSigElements (stack.go is absent), as CHECKMULTISIG and
  its tests use it: the keys or signatures are either one array of byte arrays, or a
  count followed by that many items. The result is the list of byte strings or the error
  that CHECKMULTISIG turns into a panic.
\<close>

fun item_bytes :: "StackItem \<Rightarrow> byte list option" where
  "item_bytes (ByteArrayItem b) = Some b"
| "item_bytes _ = None"

fun pop_n_Bytes :: "Env \<Rightarrow> nat \<Rightarrow> byte list list act" where
  "pop_n_Bytes env 0 = ret []"
| "pop_n_Bytes env (Suc n) =
     bnd (pop_Bytes env) (\<lambda>b. bnd (pop_n_Bytes env n) (\<lambda>bs. ret (b # bs)))"

definition popSigElements :: "Env \<Rightarrow> (string + byte list list) act" where
  "popSigElements env =
     bnd estack_Pop (\<lambda>e. case e of
         None \<Rightarrow> ret (Inl ''nothing on the stack'')
       | Some (ArrayItem r) \<Rightarrow>
           (\<lambda>v. let arr = items_at (heap v) r in
                 if length arr < 1 then (Inr (Inl ''less than one element in the array''), v)
                 else if list_all (\<lambda>x. item_bytes x \<noteq> None) arr
                   then (Inr (Inr (map (\<lambda>x. the (item_bytes x)) arr)), v)
                 else (Inr (Inl ''bad element''), v))
       | Some item \<Rightarrow>
           bnd (lift (BigInt env item)) (\<lambda>nb. let num = Int64 nb in
             (\<lambda>v. if num < 1 \<or> num > int (length (estack v))
                   then (Inr (Inl ''wrong number of elements''), v)
                   else bnd (pop_n_Bytes env (nat num)) (\<lambda>bs. ret (Inr bs)) v)))"

text \<open>
  The matching loop of CHECKMULTISIG: \<open>j\<close> counts keys and \<open>i\<close> counts signatures. A key
  that does not decode and a signature too short to slice end the loop in a panic.
\<close>

function multisig_loop :: "Env \<Rightarrow> byte list list \<Rightarrow> byte list list \<Rightarrow> byte list
    \<Rightarrow> nat \<Rightarrow> nat \<Rightarrow> bool \<Rightarrow> string + bool" where
  "multisig_loop env pkeys sigs h i j sigok =
     (if sigok \<and> j < length pkeys \<and> i < length sigs then
        (case DecodeBytes env (pkeys ! j) of
           Inl e \<Rightarrow> Inl e
         | Inr pkey \<Rightarrow>
             (case Verify env pkey (sigs ! i) h of
                Inl e \<Rightarrow> Inl e
              | Inr ok \<Rightarrow>
                  (let i' = (if ok then i + 1 else i);
                       j' = j + 1;
                       sigok' = (if int (length sigs) - int i' > int (length pkeys) - int j'
                                 then False else sigok)
                   in multisig_loop env pkeys sigs h i' j' sigok')))
      else Inr sigok)"
  by pat_completeness auto
termination
  by (relation "measure (\<lambda>(env, pkeys, sigs, h, i, j, sigok). length pkeys - j)") auto

definition op_CHECKMULTISIG :: "Env \<Rightarrow> unit act" where
  "op_CHECKMULTISIG env =
     bnd (popSigElements env) (\<lambda>r1. case r1 of
         Inl err \<Rightarrow> panic (''wrong parameters: '' @ err)
       | Inr pkeys \<Rightarrow>
           bnd (popSigElements env) (\<lambda>r2. case r2 of
               Inl err \<Rightarrow> panic (''wrong parameters: '' @ err)
             | Inr sigs \<Rightarrow>
                 if length pkeys < length sigs then panic ''more signatures than there are keys''
                 else (\<lambda>v. case checkhash v of
                         None \<Rightarrow> panic ''VM is not set up properly for signature checks'' v
                       | Some h \<Rightarrow>
                           (case multisig_loop env pkeys sigs h 0 0 True of
                              Inl e \<Rightarrow> panic e v
                            | Inr sigok \<Rightarrow> estack_PushVal (BoolItem sigok) v))))"

text \<open>
  RET. Every context translated here works on the machine's own evaluation and alt
  stack (only the CALLI family, which is not translated, makes a context with stacks of
  its own), so the old and the new evaluation stack are the same and nothing is copied.
\<close>

definition op_RET :: "unit act" where
  "op_RET v =
     (case istack v of
        [] \<Rightarrow> (Inl ''nil pointer dereference'', v)
      | oldCtx # rest \<Rightarrow>
          (let v = v\<lparr>istack := rest\<rparr> in
           if rvcount oldCtx > 0 \<and> int (length (estack v)) < rvcount oldCtx
             then (Inl ''missing some return elements'', v)
           else if length (istack v) = 0 then (Inr (), v\<lparr>state := haltState\<rparr>)
           else (Inr (), v)))"

subsection \<open>execute, Step and Run\<close>

text \<open>The handler of a translated instruction; the last line is PUSHM1 and PUSH1 to PUSH16.\<close>

definition handler :: "Env \<Rightarrow> Instruction \<Rightarrow> byte list \<Rightarrow> unit act" where
  "handler env op parameter =
     (case op of
        PUSHBYTES n \<Rightarrow> estack_PushVal (ByteArrayItem parameter)
      | PUSH0 \<Rightarrow> estack_PushVal (ByteArrayItem [])
      | PUSHDATA1 \<Rightarrow> estack_PushVal (ByteArrayItem parameter)
      | PUSHDATA2 \<Rightarrow> estack_PushVal (ByteArrayItem parameter)
      | PUSHDATA4 \<Rightarrow> estack_PushVal (ByteArrayItem parameter)
      | TOALTSTACK \<Rightarrow> op_TOALTSTACK
      | FROMALTSTACK \<Rightarrow> op_FROMALTSTACK
      | DUPFROMALTSTACK \<Rightarrow> op_DUPFROMALTSTACK
      | DUP \<Rightarrow> op_DUP
      | SWAP \<Rightarrow> op_SWAP
      | DROP \<Rightarrow> op_DROP
      | DEPTH \<Rightarrow> op_DEPTH
      | SUBSTR \<Rightarrow> op_SUBSTR env
      | LEFT \<Rightarrow> op_LEFT env
      | RIGHT \<Rightarrow> op_RIGHT env
      | EQUAL \<Rightarrow> op_EQUAL
      | SHL \<Rightarrow> op_SHIFT env SHL
      | SHR \<Rightarrow> op_SHIFT env SHR
      | NEWARRAY \<Rightarrow> op_NEWARRAY env
      | NEWSTRUCT \<Rightarrow> op_NEWSTRUCT env
      | NEWMAP \<Rightarrow> op_NEWMAP
      | CHECKMULTISIG \<Rightarrow> op_CHECKMULTISIG env
      | RET \<Rightarrow> op_RET
      | NOP \<Rightarrow> ret ()
      | THROW \<Rightarrow> panic ''THROW''
      | OTHER n \<Rightarrow> ret ()
      | _ \<Rightarrow> op_PUSHINT op)"

definition dispatch :: "Env \<Rightarrow> Instruction \<Rightarrow> byte list \<Rightarrow> VM \<Rightarrow> outcome \<times> VM" where
  "dispatch env op parameter v =
     (case op of
        OTHER n \<Rightarrow> other env n parameter v
      | _ \<Rightarrow> (case handler env op parameter v of
                (Inl e, v') \<Rightarrow> (Panicked e, v')
              | (Inr u, v') \<Rightarrow> (Normal, v')))"

datatype error = errorAtInstruct int Instruction string | errorString string

definition newError :: "int \<Rightarrow> Instruction \<Rightarrow> string \<Rightarrow> error" where
  "newError i op err = errorAtInstruct i op err"

text \<open>
  VM.execute: the handler runs, then the deferred function: a panic is recovered into
  the fault state and an error; otherwise more than MaxStackSize counted items are a
  fault and an error; otherwise the result is what the handler returned.
\<close>

definition execute :: "Env \<Rightarrow> Context \<Rightarrow> Instruction \<Rightarrow> byte list \<Rightarrow> VM \<Rightarrow> error option \<times> VM" where
  "execute env ctx op parameter v =
     (case dispatch env op parameter v of
        (Panicked e, v') \<Rightarrow> (Some (newError (ip ctx) op e), v'\<lparr>state := faultState\<rparr>)
      | (out, v') \<Rightarrow>
          if size_vm v' > MaxStackSize
            then (Some (newError (ip ctx) op ''stack is too big''), v'\<lparr>state := faultState\<rparr>)
          else (case out of Returned e \<Rightarrow> (Some (errorString e), v') | _ \<Rightarrow> (None, v')))"

text \<open>
  Modelled from the spec: Context.Next (context.go is absent): the instruction pointer
  moves to the next instruction; past the end of the script the instruction is RET;
  otherwise the instruction at the pointer is decoded.
\<close>

definition Next :: "Env \<Rightarrow> Context
    \<Rightarrow> ((Instruction \<times> string) + (Instruction \<times> byte list)) \<times> Context" where
  "Next env c =
     (let c = c\<lparr>ip := nextip c\<rparr> in
      if ip c \<ge> int (length (prog c)) then (Inr (RET, []), c)
      else (case decode env (prog c) (ip c) of
              Inl (op, e) \<Rightarrow> (Inl (op, e), c)
            | Inr (op, param, nxt) \<Rightarrow> (Inr (op, param), c\<lparr>nextip := nxt\<rparr>)))"

text \<open>
  VM.Step. Without a context, \<open>ctx.Next()\<close> dereferences nil outside any recover: the
  panic leaves Step (\<open>Inl\<close>).
\<close>

definition Step :: "Env \<Rightarrow> VM \<Rightarrow> string + (error option \<times> VM)" where
  "Step env v =
     (case istack v of
        [] \<Rightarrow> Inl ''nil pointer dereference''
      | ctx # rest \<Rightarrow>
          (case Next env ctx of
             (Inl (op, e), ctx') \<Rightarrow>
               Inr (Some (newError (ip ctx') op e), v\<lparr>istack := ctx' # rest, state := faultState\<rparr>)
           | (Inr (op, param), ctx') \<Rightarrow>
               Inr (execute env ctx' op param (v\<lparr>istack := ctx' # rest\<rparr>))))"

text \<open>
  The loop of VM.Run, with fuel for the number of rounds: \<open>None\<close> when the fuel runs out
  before the loop returns.
\<close>

fun run_loop :: "Env \<Rightarrow> nat \<Rightarrow> VM \<Rightarrow> (string + (error option \<times> VM)) option" where
  "run_loop env 0 v = None"
| "run_loop env (Suc n) v =
     (let v = (case istack v of
                 ctx # rest \<Rightarrow> if atBreakPoint ctx then v\<lparr>state := state v \<union> breakState\<rparr> else v
               | [] \<Rightarrow> v)
      in if HasFlag (state v) faultState then Some (Inr (Some (errorString ''VM has failed''), v))
         else if HasFlag (state v) haltState \<or> HasFlag (state v) breakState then Some (Inr (None, v))
         else if state v = noneState then
           (case Step env v of
              Inl e \<Rightarrow> Some (Inl e)
            | Inr (Some err, v') \<Rightarrow> Some (Inr (Some err, v'))
            | Inr (None, v') \<Rightarrow> run_loop env n v')
         else Some (Inr (Some (errorString ''unknown state''), v\<lparr>state := faultState\<rparr>)))"

definition Run :: "Env \<Rightarrow> nat \<Rightarrow> VM \<Rightarrow> (string + (error option \<times> VM)) option" where
  "Run env fuel v =
     (if \<not> Ready v then Some (Inr (Some (errorString ''no program loaded''), v\<lparr>state := faultState\<rparr>))
      else if HasFlag (state v) faultState then Some (Inr (Some (errorString ''VM has failed''), v))
      else run_loop env fuel (v\<lparr>state := noneState\<rparr>))"


subsection \<open>A concrete environment for the closed examples\<close>



definition key0 :: "byte \<Rightarrow> byte list" where
  "key0 b = 4 # replicate 64 b"

definition sig0 :: "byte \<Rightarrow> byte list" where
  "sig0 b = replicate 64 b"




section \<open>Properties of the network server\<close>





text \<open>
  Claim C4, as the code has it. handleInvCmd answers an inv with one getdata message of
  the same inventory type that requests every announced hash, in the announced order; the
  chain and the mempool are not consulted. When the write fails nothing is sent and the
  error is returned.
\<close>

theorem handleInvCmd_requests_all:
  "handleInvCmd s p iv =
     (if peer_broken p then (Some ''write failed'', p)
      else (None, p\<lparr>peer_sent := peer_sent p @
              [\<lparr>Magic = Net s, Command = CMDGetData,
                Payload = \<lparr>inv_Type = inv_Type iv, Hashes = Hashes iv\<rparr>\<rparr>]\<rparr>))"
  by (simp add: handleInvCmd_def WriteMsg_def NewMessage_def NewInventory_def)

text \<open>The theorem at a server that holds hash 5 and is told of hashes 5 and 6.\<close>

theorem handleInvCmd_requests_all_witness:
  "handleInvCmd (server0 [5]) (peer0 True) \<lparr>inv_Type = TXType, Hashes = [5, 6]\<rparr> =
     (None, (peer0 True)\<lparr>peer_sent :=
        [\<lparr>Magic = 56753, Command = CMDGetData, Payload = \<lparr>inv_Type = TXType, Hashes = [5, 6]\<rparr>\<rparr>]\<rparr>)"
  using handleInvCmd_requests_all [of "server0 [5]" "peer0 True" "\<lparr>inv_Type = TXType, Hashes = [5, 6]\<rparr>"]
  by (simp add: server0_def peer0_def)

text \<open>
  Claim C4 as stated fails: the chain holds hash 5, and the getdata sent in reply to an
  inv of 5 and 6 still requests 5.
\<close>

theorem handleInvCmd_known_hash_counterexample:
  "HasTransaction (list_chain 2) (chain (server0 [5])) 5
   \<and> map (\<lambda>m. Hashes (Payload m))
         (peer_sent (snd (handleInvCmd (server0 [5]) (peer0 True) \<lparr>inv_Type = TXType, Hashes = [5, 6]\<rparr>)))
       = [[5, 6]]"
  by (simp add: handleInvCmd_def WriteMsg_def NewMessage_def NewInventory_def server0_def peer0_def list_chain_def)


section \<open>Properties of the binary serialisation\<close>

lemma length_le_bytes [simp]: "length (le_bytes n x) = n"
  by (induction n arbitrary: x) auto

lemma le_nat_le_bytes: "le_nat (le_bytes n x) = x mod 256 ^ n"
proof (induction n arbitrary: x)
  case 0
  then show ?case by simp
next
  case (Suc n)
  have "unat (of_nat (x mod 256) :: byte) = x mod 256"
    by (simp add: unat_of_nat)
  then show ?case
    using Suc by (simp add: mod_mult2_eq)
qed

lemma word_of_le_bytes:
  fixes w :: "'a::len word"
  assumes "8 * (LENGTH('a) div 8) = LENGTH('a)"
  shows "of_nat (le_nat (le_bytes (LENGTH('a) div 8) (unat w))) = w"
proof -
  have "(256::nat) ^ (LENGTH('a) div 8) = 2 ^ LENGTH('a)"
  proof -
    have "(256::nat) = 2 ^ 8" by simp
    then have "(256::nat) ^ (LENGTH('a) div 8) = 2 ^ (8 * (LENGTH('a) div 8))"
      by (simp only: power_mult)
    then show ?thesis using assms by simp
  qed
  then show ?thesis
    by (simp add: le_nat_le_bytes)
qed

lemma ReadLE_WriteLE:
  fixes w :: "'a::len word"
  assumes "8 * (LENGTH('a) div 8) = LENGTH('a)"
  shows "ReadLE \<lparr>buf = le_bytes (LENGTH('a) div 8) (unat w) @ rest, Err = False\<rparr> d
           = (w, \<lparr>buf = rest, Err = False\<rparr>)"
  using word_of_le_bytes [OF assms, of w]
  by (simp add: ReadLE_def read_raw_def)

lemmas ReadLE_u8 = ReadLE_WriteLE [where 'a = 8, simplified]
lemmas ReadLE_u16 = ReadLE_WriteLE [where 'a = 16, simplified]
lemmas ReadLE_u32 = ReadLE_WriteLE [where 'a = 32, simplified]
lemmas ReadLE_u64 = ReadLE_WriteLE [where 'a = 64, simplified]
lemmas ReadLE_u256 = ReadLE_WriteLE [where 'a = 256, simplified]

lemma ReadLE_byte:
  "ReadLE \<lparr>buf = le_bytes (Suc 0) (unat (w :: 8 word)) @ rest, Err = False\<rparr> d
     = (w, \<lparr>buf = rest, Err = False\<rparr>)"
  using ReadLE_WriteLE [where 'a = 8, of w rest d] by simp

lemma ReadLE_bool_WriteLE_bool:
  "ReadLE_bool \<lparr>buf = (if v then 1 else 0) # rest, Err = False\<rparr> d = (v, \<lparr>buf = rest, Err = False\<rparr>)"
  by (simp add: ReadLE_bool_def read_raw_def)

lemma ucast_small:
  fixes v :: "64 word"
  assumes "unat v < 2 ^ LENGTH('b::len)"
  shows "unat (ucast v :: 'b word) = unat v"
  using assms by (simp add: unsigned_ucast_eq take_bit_nat_eq_self)

lemma ucast_back:
  fixes v :: "64 word"
  assumes "unat v < 2 ^ LENGTH('b::len)"
  shows "(ucast (ucast v :: 'b word) :: 64 word) = v"
proof -
  have tb: "take_bit LENGTH(64) (unat v) = unat v"
    by (rule take_bit_nat_eq_self) (rule unsigned_less)
  have "unat (ucast (ucast v :: 'b word) :: 64 word) = unat v"
    by (subst unsigned_ucast_eq) (simp only: ucast_small [OF assms] tb)
  then show ?thesis by (simp only: word_unat_eq_iff)
qed

lemma ReadVarUint_WriteVarUint:
  "ReadVarUint \<lparr>buf = WriteVarUint [] v @ rest, Err = False\<rparr> = (v, \<lparr>buf = rest, Err = False\<rparr>)"
proof -
  consider "v < 0xFD" | "\<not> v < 0xFD" "v \<le> 0xFFFF" | "\<not> v \<le> 0xFFFF" "v \<le> 0xFFFFFFFF" | "\<not> v \<le> 0xFFFFFFFF"
    by blast
  then show ?thesis
  proof cases
    case 1
    then have lt: "unat v < 253" by (simp add: word_less_nat_alt)
    have ne: "(ucast v :: 8 word) \<noteq> 0xFD" "(ucast v :: 8 word) \<noteq> 0xFE" "(ucast v :: 8 word) \<noteq> 0xFF"
      using lt ucast_small [of v, where 'b = 8] by auto
    have rt: "(ucast (ucast v :: 8 word) :: 64 word) = v"
      using lt by (intro ucast_back) simp
    show ?thesis
      using 1 ne rt ReadLE_u8 [of "ucast v" rest 0]
      by (simp add: ReadVarUint_def WriteVarUint_def WriteLE_def)
  next
    case 2
    then have lt: "unat v < 65536" by (simp add: word_le_nat_alt)
    have rt: "(ucast (ucast v :: 16 word) :: 64 word) = v"
      using lt by (intro ucast_back) simp
    show ?thesis
      using 2 rt ReadLE_u8 [of "0xFD" "le_bytes 2 (unat (ucast v :: 16 word)) @ rest" 0]
            ReadLE_u16 [of "ucast v" rest 0]
      by (simp add: ReadVarUint_def WriteVarUint_def WriteLE_def)
  next
    case 3
    then have lt: "unat v < 4294967296" by (simp add: word_le_nat_alt)
    have nlt: "\<not> v < 0xFD"
      using 3(1) by (auto simp: word_less_nat_alt word_le_nat_alt)
    have rt: "(ucast (ucast v :: 32 word) :: 64 word) = v"
      using lt by (intro ucast_back) simp
    show ?thesis
      using 3 nlt rt ReadLE_u8 [of "0xFE" "le_bytes 4 (unat (ucast v :: 32 word)) @ rest" 0]
            ReadLE_u32 [of "ucast v" rest 0]
      by (simp add: ReadVarUint_def WriteVarUint_def WriteLE_def)
  next
    case 4
    have nlt: "\<not> v < 0xFD" "\<not> v \<le> 0xFFFF"
      using 4 by (auto simp: word_less_nat_alt word_le_nat_alt)
    show ?thesis
      using 4 nlt ReadLE_u8 [of "0xFF" "le_bytes 8 (unat v) @ rest" 0]
            ReadLE_u64 [of v rest 0]
      by (simp add: ReadVarUint_def WriteVarUint_def WriteLE_def)
  qed
qed


lemma WriteLE_append: "WriteLE bw v = bw @ WriteLE [] v"
  by (simp add: WriteLE_def)

lemma WriteVarUint_append: "WriteVarUint bw v = bw @ WriteVarUint [] v"
  by (simp add: WriteVarUint_def WriteLE_def)

lemma ReadBytes_WriteBytes:
  assumes "length b < 2 ^ 64"
  shows "ReadBytes \<lparr>buf = WriteBytes [] b @ rest, Err = False\<rparr> = (b, \<lparr>buf = rest, Err = False\<rparr>)"
proof -
  have "unat (of_nat (length b) :: 64 word) = length b"
    using assms by (simp add: unat_of_nat)
  then show ?thesis
    using ReadVarUint_WriteVarUint [of "of_nat (length b)" "b @ rest"]
    by (simp add: ReadBytes_def WriteBytes_def read_raw_def)
qed

lemma WriteBytes_append: "WriteBytes bw b = bw @ WriteBytes [] b"
  using WriteVarUint_append [of bw] by (simp add: WriteBytes_def)

lemma hashes_of_bytes_concat:
  "hashes_of_bytes (length hs) (concat (map (\<lambda>h. le_bytes 32 (unat h)) hs)) = hs"
proof (induction hs)
  case Nil
  then show ?case by simp
next
  case (Cons h hs)
  have "(of_nat (le_nat (le_bytes 32 (unat h))) :: Uint256) = h"
    using word_of_le_bytes [of h] by simp
  then show ?case using Cons by simp
qed

lemma length_concat_hashes:
  "length (concat (map (\<lambda>h. le_bytes 32 (unat h)) (hs :: Uint256 list))) = 32 * length hs"
  by (induction hs) auto

lemma ReadLE_hashes_WriteLE_hashes:
  "ReadLE_hashes \<lparr>buf = WriteLE_hashes [] hs @ rest, Err = False\<rparr> (length hs)
     = (hs, \<lparr>buf = rest, Err = False\<rparr>)"
  by (simp add: ReadLE_hashes_def WriteLE_hashes_def read_raw_def length_concat_hashes
      hashes_of_bytes_concat)

lemma write_params_append: "write_params bw ps = bw @ concat (map (\<lambda>p. le_bytes (Suc 0) (unat p)) ps)"
  by (induction ps arbitrary: bw) (auto simp: WriteLE_def)

lemma read_params_write_params:
  "read_params (length ps) \<lparr>buf = concat (map (\<lambda>p. le_bytes (Suc 0) (unat p)) ps) @ rest, Err = False\<rparr>
     = (ps, \<lparr>buf = rest, Err = False\<rparr>)"
proof (induction ps)
  case Nil
  then show ?case by simp
next
  case (Cons p ps)
  show ?case
    using ReadLE_u8 [of p "concat (map (\<lambda>p. le_bytes (Suc 0) (unat p)) ps) @ rest" 0] Cons
    by simp
qed

lemma Version_roundtrip0:
  assumes "length (UserAgent p) < 2 ^ 64"
  shows "Version_DecodeBinary p0 (NewBinReaderFromBuf (Version_EncodeBinary p [])) = (p, \<lparr>buf = [], Err = False\<rparr>)"
proof -
  have enc: "Version_EncodeBinary p [] =
      le_bytes 4 (unat (Version p)) @ le_bytes 8 (unat (Services p)) @ le_bytes 4 (unat (Timestamp p))
      @ le_bytes 2 (unat (Port p)) @ le_bytes 4 (unat (Nonce p)) @ WriteBytes [] (UserAgent p)
      @ le_bytes 4 (unat (StartHeight p)) @ [if Relay p then 1 else 0]"
    by (simp add: Version_EncodeBinary_def Let_def WriteLE_def WriteLE_bool_def WriteBytes_append [where bw = "a @ b" for a b])
  show ?thesis
    unfolding enc NewBinReaderFromBuf_def Version_DecodeBinary_def
    by (simp add: ReadLE_u32 ReadLE_u64 ReadLE_u16 ReadBytes_WriteBytes [OF assms] ReadLE_bool_WriteLE_bool
        del: le_bytes.simps)
qed


lemma GetBlocks_roundtrip0:
  assumes "length (HashStart p) < 2 ^ 64"
  shows "GetBlocks_DecodeBinary p0 (NewBinReaderFromBuf (GetBlocks_EncodeBinary p []))
           = (p, \<lparr>buf = [], Err = False\<rparr>)"
proof -
  have n: "unat (of_nat (length (HashStart p)) :: 64 word) = length (HashStart p)"
    using assms by (simp add: unat_of_nat)
  have enc: "GetBlocks_EncodeBinary p [] =
      WriteVarUint [] (of_nat (length (HashStart p))) @ WriteLE_hashes [] (HashStart p)
      @ le_bytes 32 (unat (HashStop p))"
    by (simp add: GetBlocks_EncodeBinary_def Let_def WriteLE_def WriteLE_hashes_def)
  show ?thesis
    unfolding enc NewBinReaderFromBuf_def GetBlocks_DecodeBinary_def
    using ReadLE_u256 [of "HashStop p" "[]" "HashStop p0"]
    by (simp add: ReadVarUint_WriteVarUint n ReadLE_hashes_WriteLE_hashes del: le_bytes.simps)
qed

lemma PublishTX_roundtrip0:
  assumes "length (Script tx) < 2 ^ 64" "length (ParamList tx) < 2 ^ 64"
    "length (Name tx) < 2 ^ 64" "length (CodeVersion tx) < 2 ^ 64" "length (Author tx) < 2 ^ 64"
    "length (Email tx) < 2 ^ 64" "length (Description tx) < 2 ^ 64"
    and ver: "tx_Version tx0 = tx_Version tx"
    and ns: "tx_Version tx \<ge> 1 \<or> NeedStorage tx = False"
  shows "PublishTX_DecodeBinary tx0 (NewBinReaderFromBuf (PublishTX_EncodeBinary tx []))
           = (tx, \<lparr>buf = [], Err = False\<rparr>)"
proof -
  have n: "unat (of_nat (length (ParamList tx)) :: 64 word) = length (ParamList tx)"
    using assms by (simp add: unat_of_nat)
  have enc: "PublishTX_EncodeBinary tx [] =
      WriteBytes [] (Script tx) @ WriteVarUint [] (of_nat (length (ParamList tx)))
      @ concat (map (\<lambda>p. le_bytes (Suc 0) (unat p)) (ParamList tx))
      @ le_bytes (Suc 0) (unat (ReturnType tx))
      @ (if tx_Version tx \<ge> 1 then [if NeedStorage tx then 1 else 0] else [])
      @ WriteBytes [] (Name tx) @ WriteBytes [] (CodeVersion tx) @ WriteBytes [] (Author tx)
      @ WriteBytes [] (Email tx) @ WriteBytes [] (Description tx)"
    by (simp add: PublishTX_EncodeBinary_def Let_def WriteString_def WriteLE_bool_def
        WriteBytes_append [where bw = "a @ b" for a b]
        WriteVarUint_append [where bw = "WriteBytes a b" for a b] write_params_append
        WriteLE_def)
  note rb = ReadBytes_WriteBytes [OF assms(1)] ReadBytes_WriteBytes [OF assms(3)]
    ReadBytes_WriteBytes [OF assms(4)] ReadBytes_WriteBytes [OF assms(5)]
    ReadBytes_WriteBytes [OF assms(6)] ReadBytes_WriteBytes [OF assms(7), of "[]", simplified]
  show ?thesis
  proof (cases "tx_Version tx \<ge> 1")
    case True
    show ?thesis
      unfolding enc NewBinReaderFromBuf_def PublishTX_DecodeBinary_def ReadString_def
      using True ver
      by (simp add: rb ReadVarUint_WriteVarUint n read_params_write_params
          ReadLE_byte ReadLE_bool_WriteLE_bool [of True, simplified]
          ReadLE_bool_WriteLE_bool [of False, simplified] del: le_bytes.simps)
  next
    case False
    then have "NeedStorage tx = False" using ns by simp
    then show ?thesis
      unfolding enc NewBinReaderFromBuf_def PublishTX_DecodeBinary_def ReadString_def
      using False ver
      by (simp add: rb ReadVarUint_WriteVarUint n read_params_write_params
          ReadLE_byte del: le_bytes.simps)
  qed
qed


text \<open>
  Claim C9, as the code has it. Decoding what EncodeBinary wrote gives the value back,
  with the reader at the end of its input and no error, for every version payload and
  every getblocks payload; and for a publish-transaction body when the decoder's
  receiver carries the body's transaction version and the body either has version 1 or
  more or has NeedStorage unset. Slices are shorter than 2^64, as Go's are.
\<close>

theorem Decode_Encode_roundtrip:
  "(length (UserAgent p) < 2 ^ 64 \<longrightarrow>
      Version_DecodeBinary p0 (NewBinReaderFromBuf (Version_EncodeBinary p []))
        = (p, \<lparr>buf = [], Err = False\<rparr>))
   \<and> (length (HashStart g) < 2 ^ 64 \<longrightarrow>
      GetBlocks_DecodeBinary g0 (NewBinReaderFromBuf (GetBlocks_EncodeBinary g []))
        = (g, \<lparr>buf = [], Err = False\<rparr>))
   \<and> (length (Script tx) < 2 ^ 64 \<and> length (ParamList tx) < 2 ^ 64 \<and> length (Name tx) < 2 ^ 64
        \<and> length (CodeVersion tx) < 2 ^ 64 \<and> length (Author tx) < 2 ^ 64
        \<and> length (Email tx) < 2 ^ 64 \<and> length (Description tx) < 2 ^ 64
        \<and> tx_Version tx0 = tx_Version tx \<and> (tx_Version tx \<ge> 1 \<or> NeedStorage tx = False) \<longrightarrow>
      PublishTX_DecodeBinary tx0 (NewBinReaderFromBuf (PublishTX_EncodeBinary tx []))
        = (tx, \<lparr>buf = [], Err = False\<rparr>))"
  using Version_roundtrip0 [of p p0] GetBlocks_roundtrip0 [of g g0] PublishTX_roundtrip0 [of tx tx0]
  by blast

text \<open>The theorem at a version payload, a getblocks payload with two start hashes and a
  version-1 publish body that needs storage.\<close>

theorem Decode_Encode_roundtrip_witness:
  "Version_DecodeBinary version1 (NewBinReaderFromBuf (Version_EncodeBinary version1 []))
     = (version1, \<lparr>buf = [], Err = False\<rparr>)
   \<and> GetBlocks_DecodeBinary \<lparr>HashStart = [], HashStop = 0\<rparr>
        (NewBinReaderFromBuf (GetBlocks_EncodeBinary getblocks1 []))
     = (getblocks1, \<lparr>buf = [], Err = False\<rparr>)
   \<and> PublishTX_DecodeBinary (publish1 1 False) (NewBinReaderFromBuf (PublishTX_EncodeBinary (publish1 1 True) []))
     = (publish1 1 True, \<lparr>buf = [], Err = False\<rparr>)"
  using Decode_Encode_roundtrip [of version1 version1 getblocks1 "\<lparr>HashStart = [], HashStop = 0\<rparr>"
      "publish1 1 True" "publish1 1 False"]
  by (simp add: version1_def getblocks1_def publish1_def)

text \<open>
  Claim C9 as stated fails for a version-0 publish body with NeedStorage set: the flag is
  not written, and the decoder, given the same transaction version, sets it to false.
\<close>

theorem PublishTX_roundtrip_counterexample:
  "fst (PublishTX_DecodeBinary (publish1 0 True)
          (NewBinReaderFromBuf (PublishTX_EncodeBinary (publish1 0 True) [])))
     = publish1 0 False
   \<and> publish1 0 False \<noteq> publish1 0 True"
proof -
  have "PublishTX_EncodeBinary (publish1 0 True) [] = PublishTX_EncodeBinary (publish1 0 False) []"
    by (simp add: PublishTX_EncodeBinary_def publish1_def)
  moreover have "PublishTX_DecodeBinary (publish1 0 True) br = PublishTX_DecodeBinary (publish1 0 False) br" for br
    by (simp add: PublishTX_DecodeBinary_def publish1_def)
  ultimately show ?thesis
    using PublishTX_roundtrip0 [of "publish1 0 False" "publish1 0 False"]
    by (simp add: publish1_def)
qed


section \<open>Properties of the virtual machine\<close>

subsection \<open>Item counting and the stack primitives\<close>



lemma updateSizeRemove_le:
  "snd (updateSizeRemove fuel h xs c) \<le> snd c - int (length xs)"
proof (induction fuel h xs c rule: updateSizeRemove.induct)
  case (1 fuel h c)
  then show ?case by simp
next
  case (2 fuel h x xs cnt sz)
  show ?case
  proof (cases "is_collection x")
    case False
    then show ?thesis using 2(5) by simp
  next
    case True
    show ?thesis
    proof (cases "cnt (ref_of x) > 1")
      case gt: True
      then show ?thesis using True 2(1) by simp
    next
      case le: False
      show ?thesis
      proof (cases fuel)
        case 0
        then show ?thesis using True le 2(2) by simp
      next
        case (Suc f)
        have a: "snd (updateSizeRemove f h (children h x) (cnt(ref_of x := 0), sz - 1)) \<le> sz - 1"
          using 2(3) [OF True le Suc] by simp
        have b: "snd (updateSizeRemove fuel h xs (updateSizeRemove f h (children h x) (cnt(ref_of x := 0), sz - 1)))
                 \<le> snd (updateSizeRemove f h (children h x) (cnt(ref_of x := 0), sz - 1)) - int (length xs)"
          using 2(4) [OF True le Suc] by simp
        show ?thesis using True le Suc a b by simp
      qed
    qed
  qed
qed

lemma updateSizeAdd_ge:
  "snd (updateSizeAdd fuel h xs c) \<ge> snd c + int (length xs)"
proof (induction fuel h xs c rule: updateSizeAdd.induct)
  case (1 fuel h c)
  then show ?case by simp
next
  case (2 fuel h x xs cnt sz)
  show ?case
  proof (cases "is_collection x")
    case False
    then show ?thesis using 2(5) by simp
  next
    case True
    show ?thesis
    proof (cases "cnt (ref_of x) \<ge> 1")
      case gt: True
      then show ?thesis using True 2(1) by simp
    next
      case le: False
      show ?thesis
      proof (cases fuel)
        case 0
        then show ?thesis using True le 2(2) by simp
      next
        case (Suc f)
        have a: "snd (updateSizeAdd f h (children h x) (cnt(ref_of x := 1), sz + 1)) \<ge> sz + 1"
          using 2(3) [OF True le Suc] by simp
        have b: "snd (updateSizeAdd fuel h xs (updateSizeAdd f h (children h x) (cnt(ref_of x := 1), sz + 1)))
                 \<ge> snd (updateSizeAdd f h (children h x) (cnt(ref_of x := 1), sz + 1)) + int (length xs)"
          using 2(4) [OF True le Suc] by simp
        show ?thesis using True le Suc a b by simp
      qed
    qed
  qed
qed




lemma count_remove_fields [simp]:
  "state (count_remove x v) = state v" "istack (count_remove x v) = istack v"
  "estack (count_remove x v) = estack v" "astack (count_remove x v) = astack v"
  "checkhash (count_remove x v) = checkhash v" "heap (count_remove x v) = heap v"
  by (simp_all add: count_remove_def split: prod.splits)

lemma count_add_fields [simp]:
  "state (count_add x v) = state v" "istack (count_add x v) = istack v"
  "estack (count_add x v) = estack v" "astack (count_add x v) = astack v"
  "checkhash (count_add x v) = checkhash v" "heap (count_add x v) = heap v"
  by (simp_all add: count_add_def split: prod.splits)

lemma size_count_remove_le: "size_vm (count_remove x v) \<le> size_vm v - 1"
proof -
  obtain cnt sz where u:
    "updateSizeRemove (Suc (length (heap v))) (heap v) [x] (itemCount v, size_vm v) = (cnt, sz)"
    by (cases "updateSizeRemove (Suc (length (heap v))) (heap v) [x] (itemCount v, size_vm v)")
  have "sz \<le> size_vm v - 1"
    using updateSizeRemove_le [of "Suc (length (heap v))" "heap v" "[x]" "(itemCount v, size_vm v)"]
    unfolding u by simp
  then show ?thesis
    by (simp add: count_remove_def u del: updateSizeRemove.simps)
qed

lemma size_count_add_ge: "size_vm (count_add x v) \<ge> size_vm v + 1"
proof -
  obtain cnt sz where u:
    "updateSizeAdd (Suc (length (heap v))) (heap v) [x] (itemCount v, size_vm v) = (cnt, sz)"
    by (cases "updateSizeAdd (Suc (length (heap v))) (heap v) [x] (itemCount v, size_vm v)")
  have "sz \<ge> size_vm v + 1"
    using updateSizeAdd_ge [of "(itemCount v, size_vm v)" "[x]" "Suc (length (heap v))" "heap v"]
    unfolding u by simp
  then show ?thesis
    by (simp add: count_add_def u del: updateSizeAdd.simps)
qed




lemma estack_Pop_Nil:
  "estack v = [] \<Longrightarrow> estack_Pop v = (Inr None, v)"
  by (simp add: estack_Pop_def)






lemma execute_too_big:
  assumes "handler env op p v = (Inr (), v')" "op \<notin> range OTHER" "size_vm v' > MaxStackSize"
  shows "execute env ctx op p v
           = (Some (newError (ip ctx) op ''stack is too big''), v'\<lparr>state := faultState\<rparr>)"
  using assms by (cases op) (simp_all add: execute_def dispatch_def)





lemma not_other [simp]:
  "SUBSTR \<notin> range OTHER" "LEFT \<notin> range OTHER" "RIGHT \<notin> range OTHER" "SHL \<notin> range OTHER"
  "SHR \<notin> range OTHER" "EQUAL \<notin> range OTHER" "NEWARRAY \<notin> range OTHER"
  "NEWSTRUCT \<notin> range OTHER" "NEWMAP \<notin> range OTHER" "CHECKMULTISIG \<notin> range OTHER"
  "DUP \<notin> range OTHER" "DROP \<notin> range OTHER" "PUSH1 \<notin> range OTHER" "RET \<notin> range OTHER"
  by auto

lemma HasFailed_fault [simp]: "HasFailed (v\<lparr>state := faultState\<rparr>)"
  by (simp add: HasFailed_def HasFlag_def faultState_def)

subsection \<open>SUBSTR, LEFT and RIGHT\<close>










end
